theory Spec2Isabelle
  imports Complex_Main "HOL-Library.Word" "HOL-Library.AList"
begin

section \<open>JavaScript strings\<close>

text \<open>
  A JavaScript string is a sequence of UTF-16 code units, and the regular expressions of
  both servers (none has the \<open>u\<close> flag) work on code units. \<open>length\<close> of the list is the
  string's \<open>.length\<close>. \<open>js\<close> turns an ASCII literal of the source into such a string.
\<close>

type_synonym jschar = "16 word"
type_synonym jsstring = "jschar list"

definition js :: "string \<Rightarrow> jsstring" where
  "js s = map of_char s"

text \<open>
  The class \<open>\s\<close> of ECMAScript: the white space code points (TAB, VT, FF, SP, NBSP,
  ZWNBSP and the category Zs) and the line terminators (LF, CR, LS, PS).
\<close>

definition is_space :: "jschar \<Rightarrow> bool" where
  "is_space c =
     (c = 0x09 \<or> c = 0x0A \<or> c = 0x0B \<or> c = 0x0C \<or> c = 0x0D \<or> c = 0x20 \<or> c = 0xA0
      \<or> c = 0x1680 \<or> (0x2000 \<le> c \<and> c \<le> 0x200A) \<or> c = 0x2028 \<or> c = 0x2029
      \<or> c = 0x202F \<or> c = 0x205F \<or> c = 0x3000 \<or> c = 0xFEFF)"

text \<open>The class \<open>\d\<close> is \<open>[0-9]\<close>, and \<open>[1-9]\<close> is written out.\<close>

definition is_digit :: "jschar \<Rightarrow> bool" where
  "is_digit c = (0x30 \<le> c \<and> c \<le> 0x39)"

definition is_digit19 :: "jschar \<Rightarrow> bool" where
  "is_digit19 c = (0x31 \<le> c \<and> c \<le> 0x39)"

section \<open>The regional server (Twilio, Philippine numbers)\<close>

subsection \<open>Phone validation and rewriting\<close>

text \<open>\<^verbatim>\<open>phone.replace(/[\s\-]/g, '')\<close>: every white space and every hyphen is removed.\<close>

definition strip_separators :: "jsstring \<Rightarrow> jsstring" where
  "strip_separators phone = filter (\<lambda>c. \<not> (is_space c \<or> c = 0x2D)) phone"

text \<open>
  \<^verbatim>\<open>/^(\+639|09)\d{9}$/\<close>: the whole string is \<open>+639\<close> or \<open>09\<close> followed by
  exactly nine digits. The two alternatives start with different characters, so the
  match is decided by the prefix.
\<close>

definition phRegex_test :: "jsstring \<Rightarrow> bool" where
  "phRegex_test s =
     ((take 4 s = js ''+639'' \<and> length (drop 4 s) = 9 \<and> list_all is_digit (drop 4 s))
      \<or> (take 2 s = js ''09'' \<and> length (drop 2 s) = 9 \<and> list_all is_digit (drop 2 s)))"

definition isValidPhilippinePhone :: "jsstring \<Rightarrow> bool" where
  "isValidPhilippinePhone phone =
     (let cleanPhone = strip_separators phone in phRegex_test cleanPhone)"

text \<open>
  \<^verbatim>\<open>phone.replace(/^09/, '+639')\<close>, applied by the handler to the string it
  received, not to \<open>cleanPhone\<close>, which is local to the validation function.
\<close>

definition replace_leading_09 :: "jsstring \<Rightarrow> jsstring" where
  "replace_leading_09 phone =
     (if take 2 phone = js ''09'' then js ''+639'' @ drop 2 phone else phone)"

text \<open>
  The handler's validation and rewriting of the phone number: \<open>None\<close> is the
  400 response for an invalid number, \<open>Some\<close> carries the string the rest of the handler
  uses as cooldown key, provider destination and \<open>recipient\<close>.
\<close>

definition normalizePhone :: "jsstring \<Rightarrow> jsstring option" where
  "normalizePhone phone =
     (if \<not> isValidPhilippinePhone phone then None else Some (replace_leading_09 phone))"

subsection \<open>Requests, responses and the provider\<close>

text \<open>
  The handler reads \<open>phone\<close>, \<open>sender\<close> and \<open>text\<close> off the decoded query string:
  each is absent or a string. It answers with a status and a JSON object, kept here as
  the list of its fields in the order the source writes them. \<open>JIso t\<close> stands for
  \<^verbatim>\<open>new Date().toISOString()\<close> evaluated when the clock reads \<open>t\<close>.
\<close>

record query =
  q_phone :: "jsstring option"
  q_sender :: "jsstring option"
  q_text :: "jsstring option"

datatype json = JBool bool | JStr jsstring | JIso int

record response =
  status :: nat
  body :: "(string \<times> json) list"

definition json_error :: "nat \<Rightarrow> jsstring \<Rightarrow> response" where
  "json_error st msg = \<lparr>status = st, body = [(''error'', JStr msg)]\<rparr>"

definition field_names :: "response \<Rightarrow> string list" where
  "field_names r = map fst (body r)"

text \<open>
  What the handler holds when it issues the provider call and waits for it: its variables
  \<open>phone\<close> (rewritten), \<open>sender\<close> and \<open>text\<close>. The provider is called with
  \<open>body: text\<close> and \<open>to: phone\<close> of this record (and the configured \<open>from\<close>).
\<close>

record pending =
  p_phone :: jsstring
  p_sender :: jsstring
  p_text :: jsstring

text \<open>
  The provider call resolves with a message whose \<open>sid\<close> the handler reads, or it
  rejects with an error object: \<open>err_code\<close> is its numeric \<open>code\<close> when it has one,
  \<open>err_message\<close> its \<open>message\<close> when it has one.
\<close>

record provider_error =
  err_code :: "int option"
  err_message :: "jsstring option"

datatype provider_outcome = Resolved jsstring | Rejected provider_error

text \<open>
  The handler is an \<open>async\<close> function with one \<open>await\<close>. Up to the \<open>await\<close> it runs
  without interruption and either responds or leaves a provider call pending
  (\<open>step\<close>); when the call settles, the rest of the handler runs, again without
  interruption, and responds, unless the \<open>catch\<close> block itself throws (\<open>Crashed\<close>).
\<close>

datatype step = Respond response | Await pending

datatype outcome = Responded response | Crashed

text \<open>
  The cooldown \<open>Map\<close>, as the list of its entries in insertion order: \<open>get\<close> is
  \<open>map_of\<close>, \<open>set\<close> is \<open>AList.update\<close> (an existing key keeps its place, a new one
  goes last) and \<open>delete\<close> is \<open>AList.delete\<close>. Time stamps are readings of
  \<open>Date.now()\<close>, integers in milliseconds.
\<close>

type_synonym cooldown = "(jsstring \<times> int) list"

subsection \<open>Numbers in messages\<close>

text \<open>\<open>Math.ceil(a / b)\<close> for integers \<open>a\<close> and a positive integer \<open>b\<close>.\<close>

definition ceil_div :: "int \<Rightarrow> int \<Rightarrow> int" where
  "ceil_div a b = - ((- a) div b)"

text \<open>
  The decimal digits JavaScript prints for an integer in a template string (below
  \<open>10\<^sup>2\<^sup>1\<close> in absolute value, where it has not yet switched to the exponent form).
\<close>

function show_nat :: "nat \<Rightarrow> jsstring" where
  "show_nat n =
     (if n < 10 then [0x30 + of_nat n]
      else show_nat (n div 10) @ [0x30 + of_nat (n mod 10)])"
  by pat_completeness auto
termination
  by (relation "measure id") auto

declare show_nat.simps [simp del]

definition show_int :: "int \<Rightarrow> jsstring" where
  "show_int i = (if i < 0 then 0x2D # show_nat (nat (- i)) else show_nat (nat i))"

definition cooldown_message :: "int \<Rightarrow> jsstring" where
  "cooldown_message remainingTime =
     js ''Please wait '' @ show_int remainingTime
       @ js '' seconds before sending another message to this number''"

subsection \<open>The handler up to the provider call\<close>

text \<open>
  The checks of the request, in the source's order. \<open>!phone\<close> holds of an absent
  parameter and of the empty string.
\<close>

definition validate :: "query \<Rightarrow> response + pending" where
  "validate q =
     (case (q_phone q, q_sender q, q_text q) of
        (Some phone, Some sender, Some text) \<Rightarrow>
          if phone = [] \<or> sender = [] \<or> text = [] then
            Inl (json_error 400 (js ''Missing required parameters: phone, sender, text''))
          else
            (case normalizePhone phone of
               None \<Rightarrow>
                 Inl (json_error 400
                   (js ''Invalid Philippine phone number format. Use 09XXXXXXXXX or +639XXXXXXXXX''))
             | Some phone' \<Rightarrow>
                 if length text > 160 then
                   Inl (json_error 400 (js ''Message too long (max 160 characters)''))
                 else if length sender > 11 then
                   Inl (json_error 400 (js ''Sender name too long (max 11 characters)''))
                 else Inr \<lparr>p_phone = phone', p_sender = sender, p_text = text\<rparr>)
      | _ \<Rightarrow> Inl (json_error 400 (js ''Missing required parameters: phone, sender, text'')))"

text \<open>
  The cooldown check and the reservation. \<open>lastSent && ...\<close> is false when there is no
  entry and when the entry is the number 0. On denial nothing is written; otherwise the
  entry is written and the provider call is issued.
\<close>

definition sms_begin :: "cooldown \<Rightarrow> query \<Rightarrow> int \<Rightarrow> step \<times> cooldown" where
  "sms_begin cooldown q now =
     (case validate q of
        Inl r \<Rightarrow> (Respond r, cooldown)
      | Inr p \<Rightarrow>
          (case map_of cooldown (p_phone p) of
             None \<Rightarrow> (Await p, AList.update (p_phone p) now cooldown)
           | Some lastSent \<Rightarrow>
               if lastSent \<noteq> 0 \<and> now - lastSent < 10000 then
                 (Respond (json_error 429
                    (cooldown_message (ceil_div (10000 - (now - lastSent)) 1000))),
                  cooldown)
               else (Await p, AList.update (p_phone p) now cooldown)))"

subsection \<open>The handler after the provider call\<close>

text \<open>\<open>m.includes(pat)\<close>: \<open>pat\<close> occurs in \<open>m\<close>.\<close>

fun js_includes :: "jsstring \<Rightarrow> jsstring \<Rightarrow> bool" where
  "js_includes [] pat = (pat = [])"
| "js_includes (c # cs) pat = (take (length pat) (c # cs) = pat \<or> js_includes cs pat)"

text \<open>
  The message chosen in the \<open>catch\<close> block. When none of the four codes matches, the
  block calls \<open>error.message.includes\<close>, which throws when the error has no message:
  that is \<open>None\<close>.
\<close>

definition classify :: "provider_error \<Rightarrow> jsstring option" where
  "classify error =
     (if err_code error = Some 21211 then Some (js ''Invalid phone number format'')
      else if err_code error = Some 21408 then
        Some (js ''SMS is not available for this number/region'')
      else if err_code error = Some 21610 then Some (js ''Phone number is blacklisted'')
      else if err_code error = Some 21614 then Some (js ''Phone number is not SMS capable'')
      else
        (case err_message error of
           None \<Rightarrow> None
         | Some m \<Rightarrow>
             if js_includes m (js ''Authentication Error'') then
               Some (js ''SMS service configuration error'')
             else Some (js ''Failed to send SMS'')))"


text \<open>
  The continuation: the success response (status 200, the default), or the \<open>catch\<close>
  block, which deletes the cooldown entry before it does anything else that can fail.
  \<open>now2\<close> is the clock when the response is built.
\<close>

definition sms_finish ::
  "cooldown \<Rightarrow> pending \<Rightarrow> provider_outcome \<Rightarrow> int \<Rightarrow> outcome \<times> cooldown" where
  "sms_finish cooldown p result now2 =
     (case result of
        Resolved sid \<Rightarrow>
          (Responded \<lparr>status = 200,
             body = [(''success'', JBool True),
                     (''message'', JStr (js ''SMS sent successfully!'')),
                     (''messageId'', JStr sid),
                     (''recipient'', JStr (p_phone p)),
                     (''sender'', JStr (p_sender p)),
                     (''timestamp'', JIso now2)]\<rparr>,
           cooldown)
      | Rejected error \<Rightarrow>
          (let cooldown' = AList.delete (p_phone p) cooldown in
           case classify error of
             None \<Rightarrow> (Crashed, cooldown')
           | Some errorMessage \<Rightarrow> (Responded (json_error 500 errorMessage), cooldown')))"

subsection \<open>The periodic sweep\<close>

text \<open>
  The loop over \<open>cooldown.entries()\<close>. Deleting the entry being visited does not disturb
  the iteration of a \<open>Map\<close>, so the loop visits the entries present when it starts.
\<close>

definition sweep :: "int \<Rightarrow> cooldown \<Rightarrow> cooldown" where
  "sweep now cooldown =
     fold (\<lambda>(phone, timestamp) m.
             if now - timestamp > 3600000 then AList.delete phone m else m)
       cooldown cooldown"

subsection \<open>Interleavings\<close>

text \<open>
  Between the two halves of one request the event loop may run the halves of other
  requests and the sweep. An event is one such uninterrupted run, with its clock reading.
\<close>

datatype event = Begin query int | Finish pending provider_outcome int | Sweep int

fun apply_event :: "event \<Rightarrow> cooldown \<Rightarrow> cooldown" where
  "apply_event (Begin q now) cooldown = snd (sms_begin cooldown q now)"
| "apply_event (Finish p result now2) cooldown = snd (sms_finish cooldown p result now2)"
| "apply_event (Sweep now) cooldown = sweep now cooldown"

definition run :: "event list \<Rightarrow> cooldown \<Rightarrow> cooldown" where
  "run evs cooldown = fold apply_event evs cooldown"

fun event_time :: "event \<Rightarrow> int" where
  "event_time (Begin q now) = now"
| "event_time (Finish p result now2) = now2"
| "event_time (Sweep now) = now"

text \<open>The event is the \<open>catch\<close> block of a request to the destination \<open>d\<close>.\<close>

fun rolls_back :: "jsstring \<Rightarrow> event \<Rightarrow> bool" where
  "rolls_back d (Finish p (Rejected error) now2) = (p_phone p = d)"
| "rolls_back d ev = False"

section \<open>The generic server (simulated send)\<close>

text \<open>\<^verbatim>\<open>phone.replace(/\s/g, '')\<close>: white space is removed, nothing else.\<close>

definition strip_whitespace :: "jsstring \<Rightarrow> jsstring" where
  "strip_whitespace phone = filter (\<lambda>c. \<not> is_space c) phone"

text \<open>
  \<^verbatim>\<open>/^\+?[1-9]\d{1,14}$/\<close>: an optional \<open>+\<close>, one of \<open>1\<close> to \<open>9\<close>, then
  one to fourteen digits, and nothing more. A leading \<open>+\<close> can only be matched by \<open>\+?\<close>.
\<close>

definition phoneRegex_test :: "jsstring \<Rightarrow> bool" where
  "phoneRegex_test s =
     (case (if take 1 s = js ''+'' then drop 1 s else s) of
        [] \<Rightarrow> False
      | d # ds \<Rightarrow> is_digit19 d \<and> 1 \<le> length ds \<and> length ds \<le> 14 \<and> list_all is_digit ds)"

text \<open>
  The \<open>try\<close> block: a timer, a log line and the response. Nothing in it throws, so it
  always yields the response (\<open>Inr\<close>); \<open>Inl\<close> would carry the message of a thrown error.
  \<open>rnd\<close> is \<^verbatim>\<open>Math.random().toString(36).substr(2, 9)\<close>.
\<close>

definition simulate_send :: "jsstring \<Rightarrow> int \<Rightarrow> jsstring + response" where
  "simulate_send rnd now2 =
     Inr \<lparr>status = 200,
          body = [(''success'', JBool True),
                  (''message'', JStr (js ''SMS sent successfully'')),
                  (''messageId'', JStr (js ''msg_'' @ rnd)),
                  (''timestamp'', JIso now2)]\<rparr>"

text \<open>The \<open>catch\<close> block: status 500, with the thrown error's message appended.\<close>

definition server_catch :: "jsstring \<Rightarrow> response" where
  "server_catch msg = json_error 500 (js ''Failed to send SMS: '' @ msg)"

definition server_sms :: "query \<Rightarrow> jsstring \<Rightarrow> int \<Rightarrow> step" where
  "server_sms q rnd now2 =
     (case (q_phone q, q_sender q, q_text q) of
        (Some phone, Some sender, Some text) \<Rightarrow>
          if phone = [] \<or> sender = [] \<or> text = [] then
            Respond (json_error 400 (js ''Missing required parameters: phone, sender, text''))
          else if \<not> phoneRegex_test (strip_whitespace phone) then
            Respond (json_error 400 (js ''Invalid phone number format''))
          else if length text > 160 then
            Respond (json_error 400 (js ''Message too long (max 160 characters)''))
          else
            (case simulate_send rnd now2 of
               Inl msg \<Rightarrow> Respond (server_catch msg)
             | Inr r \<Rightarrow> Respond r)
      | _ \<Rightarrow>
          Respond (json_error 400 (js ''Missing required parameters: phone, sender, text'')))"

section \<open>The specification's patterns\<close>

text \<open>
  The loose E.164 pattern in the specification's words: an optional leading \<open>+\<close>, then
  2 to 15 digits, the first of which is not \<open>0\<close>.
\<close>

definition spec_e164_loose :: "jsstring \<Rightarrow> bool" where
  "spec_e164_loose s =
     (let ds = (if take 1 s = js ''+'' then drop 1 s else s)
      in 2 \<le> length ds \<and> length ds \<le> 15 \<and> list_all is_digit ds \<and> take 1 ds \<noteq> js ''0'')"

text \<open>
  The regional canonical form in the specification's words: white space and hyphens
  stripped, and the local form (leading \<open>09\<close>) rewritten to the international one
  (leading \<open>+639\<close>).
\<close>

definition spec_canonical :: "jsstring \<Rightarrow> jsstring" where
  "spec_canonical phone =
     (let stripped = strip_separators phone
      in if take 2 stripped = js ''09'' then js ''+639'' @ drop 2 stripped else stripped)"

section \<open>Properties\<close>

subsection \<open>Characters and prefixes\<close>

lemma js_09: "js ''09'' = [0x30, 0x39]"
  by (simp add: js_def)

lemma js_639: "js ''+639'' = [0x2B, 0x36, 0x33, 0x39]"
  by (simp add: js_def)

lemma strip_separators_09:
  "strip_separators (0x30 # 0x39 # rest) = 0x30 # 0x39 # strip_separators rest"
  by (simp add: strip_separators_def is_space_def)

lemma strip_separators_639:
  "strip_separators (js ''+639'' @ rest) = js ''+639'' @ strip_separators rest"
  by (simp add: strip_separators_def is_space_def js_639)

lemma take2_09:
  assumes "take 2 phone = js ''09''"
  shows "phone = 0x30 # 0x39 # drop 2 phone"
proof -
  have "phone = take 2 phone @ drop 2 phone"
    by simp
  with assms show ?thesis
    by (simp add: js_09)
qed

text \<open>A number in local form that passes the validation passes it after the rewriting.\<close>

lemma valid_after_rewrite:
  assumes v: "isValidPhilippinePhone phone" and t: "take 2 phone = js ''09''"
  shows "isValidPhilippinePhone (js ''+639'' @ drop 2 phone)"
proof -
  let ?rest = "strip_separators (drop 2 phone)"
  have "strip_separators phone = 0x30 # 0x39 # ?rest"
    using take2_09 [OF t] strip_separators_09 [of "drop 2 phone"] by simp
  with v have "phRegex_test (0x30 # 0x39 # ?rest)"
    by (simp add: isValidPhilippinePhone_def)
  then have "length ?rest = 9 \<and> list_all is_digit ?rest"
    by (simp add: phRegex_test_def js_09 js_639)
  then have "phRegex_test (js ''+639'' @ ?rest)"
    by (simp add: phRegex_test_def js_639)
  then show ?thesis
    by (simp add: isValidPhilippinePhone_def strip_separators_639)
qed

lemma replace_leading_09_twice:
  "replace_leading_09 (replace_leading_09 phone) = replace_leading_09 phone"
  by (simp add: replace_leading_09_def js_09 js_639)

lemma js_plus: "js ''+'' = [0x2B]"
  by (simp add: js_def)

lemma js_zero: "js ''0'' = [0x30]"
  by (simp add: js_def)

lemma digit19_ge: "(0x31::jschar) \<le> c \<longleftrightarrow> 0x30 \<le> c \<and> c \<noteq> 0x30"
proof -
  have "unat c \<ge> 49 \<longleftrightarrow> unat c \<ge> 48 \<and> unat c \<noteq> 48"
    by arith
  then show ?thesis
    by (simp add: word_le_nat_alt word_unat_eq_iff)
qed

lemma is_digit19_iff: "is_digit19 c \<longleftrightarrow> is_digit c \<and> c \<noteq> 0x30"
  using digit19_ge [of c] by (auto simp: is_digit19_def is_digit_def)

subsection \<open>Sample requests\<close>

lemmas eval_defs = validate_def normalizePhone_def isValidPhilippinePhone_def
  strip_separators_def phRegex_test_def replace_leading_09_def is_space_def is_digit_def js_def

lemma validate_sample:
  "validate \<lparr>q_phone = Some (js ''09171234567''), q_sender = Some (js ''TEST''),
       q_text = Some (js ''Hello'')\<rparr>
   = Inr \<lparr>p_phone = js ''+639171234567'', p_sender = js ''TEST'', p_text = js ''Hello''\<rparr>"
  by (simp add: eval_defs)

lemma server_sample:
  "server_sms \<lparr>q_phone = Some (js ''+12025550123''), q_sender = Some (js ''TEST''),
       q_text = Some (js ''Hello'')\<rparr> (js ''k3j9x2a1b'') 1500
   = Respond \<lparr>status = 200,
          body = [(''success'', JBool True),
                  (''message'', JStr (js ''SMS sent successfully'')),
                  (''messageId'', JStr (js ''msg_k3j9x2a1b'')),
                  (''timestamp'', JIso 1500)]\<rparr>"
  by (simp add: server_sms_def simulate_send_def phoneRegex_test_def
      strip_whitespace_def is_space_def is_digit_def is_digit19_def js_def)

lemma cooldown_message_7:
  "cooldown_message 7
    = js ''Please wait 7 seconds before sending another message to this number''"
  by (simp add: cooldown_message_def show_int_def show_nat.simps js_def)

subsection \<open>Idempotence of the normalisation\<close>

text \<open>
  C7. Whenever the regional validator accepts a destination, the string the handler goes
  on with is itself accepted, and normalising it again returns it unchanged.
\<close>

theorem normalizePhone_idempotent:
  assumes "normalizePhone phone = Some canonical"
  shows "normalizePhone canonical = Some canonical"
proof -
  from assms have v: "isValidPhilippinePhone phone"
    and c: "canonical = replace_leading_09 phone"
    by (auto simp: normalizePhone_def split: if_splits)
  have "isValidPhilippinePhone canonical"
  proof (cases "take 2 phone = js ''09''")
    case True
    with v c show ?thesis
      by (simp add: replace_leading_09_def valid_after_rewrite)
  next
    case False
    with v c show ?thesis
      by (simp add: replace_leading_09_def)
  qed
  moreover have "replace_leading_09 canonical = canonical"
    using c by (simp add: replace_leading_09_twice)
  ultimately show ?thesis
    by (simp add: normalizePhone_def)
qed

theorem normalizePhone_idempotent_witness:
  "normalizePhone (js ''0917-123-4567'') = Some (js ''+63917-123-4567'')
   \<and> normalizePhone (js ''+63917-123-4567'') = Some (js ''+63917-123-4567'')"
proof -
  have h: "normalizePhone (js ''0917-123-4567'') = Some (js ''+63917-123-4567'')"
    by (simp add: normalizePhone_def isValidPhilippinePhone_def strip_separators_def
        phRegex_test_def replace_leading_09_def is_space_def is_digit_def js_def)
  show ?thesis
    using h normalizePhone_idempotent [OF h] by simp
qed

subsection \<open>What the regional validator accepts, and what the handler goes on with\<close>

lemma phRegex_test_iff:
  "phRegex_test s \<longleftrightarrow>
     (\<exists>ds. length ds = 9 \<and> list_all is_digit ds \<and> (s = js ''+639'' @ ds \<or> s = js ''09'' @ ds))"
proof
  assume "phRegex_test s"
  then consider "take 4 s = js ''+639''" "length (drop 4 s) = 9" "list_all is_digit (drop 4 s)"
    | "take 2 s = js ''09''" "length (drop 2 s) = 9" "list_all is_digit (drop 2 s)"
    by (auto simp: phRegex_test_def)
  then show "\<exists>ds. length ds = 9 \<and> list_all is_digit ds
      \<and> (s = js ''+639'' @ ds \<or> s = js ''09'' @ ds)"
  proof cases
    case 1
    have "s = take 4 s @ drop 4 s" by simp
    with 1 show ?thesis by metis
  next
    case 2
    have "s = take 2 s @ drop 2 s" by simp
    with 2 show ?thesis by metis
  qed
next
  assume "\<exists>ds. length ds = 9 \<and> list_all is_digit ds
      \<and> (s = js ''+639'' @ ds \<or> s = js ''09'' @ ds)"
  then show "phRegex_test s"
    by (auto simp: phRegex_test_def js_09 js_639)
qed

text \<open>
  The validator accepts exactly the strings that, with white space and hyphens removed,
  are \<open>09\<close> or \<open>+639\<close> followed by nine digits.
\<close>

lemma isValidPhilippinePhone_iff:
  "isValidPhilippinePhone phone \<longleftrightarrow>
     (\<exists>ds. length ds = 9 \<and> list_all is_digit ds
         \<and> (strip_separators phone = js ''+639'' @ ds \<or> strip_separators phone = js ''09'' @ ds))"
  by (simp add: isValidPhilippinePhone_def Let_def phRegex_test_iff)

text \<open>
  C3. The canonical form is to have white space and hyphens stripped and the local form
  rewritten to \<open>+639...\<close>. The handler validates the stripped string but rewrites and
  keeps the string it received: \<open>0917 123-4567\<close> is accepted and becomes
  \<open>+63917 123-4567\<close>, separators included, and \<open> 09171234567\<close>, with a leading space, is
  accepted and left in local form. Only a number written without separators comes out as
  the specification describes.
\<close>

theorem rewrite_keeps_separators:
  "normalizePhone (js ''0917 123-4567'') = Some (js ''+63917 123-4567'')
   \<and> strip_separators (js ''0917 123-4567'') = js ''09171234567''
   \<and> normalizePhone (js '' 09171234567'') = Some (js '' 09171234567'')
   \<and> normalizePhone (js ''09171234567'') = Some (js ''+639171234567'')"
  by (simp add: normalizePhone_def isValidPhilippinePhone_def strip_separators_def
        phRegex_test_def replace_leading_09_def is_space_def is_digit_def js_def)

subsection \<open>The cooldown check\<close>

lemma ceil_div_ceiling: "ceil_div a 1000 = \<lceil>real_of_int a / 1000\<rceil>"
proof -
  have "\<lceil>real_of_int a / real_of_int 1000\<rceil> = - ((- a) div 1000)"
    by (rule ceiling_divide_eq_div)
  then show ?thesis
    by (simp add: ceil_div_def)
qed

lemma ceil_div_pos: "0 < a \<Longrightarrow> 0 < ceil_div a 1000"
  unfolding ceil_div_def by linarith

lemma ceil_div_le: "a \<le> 10000 \<Longrightarrow> ceil_div a 1000 \<le> 10"
  unfolding ceil_div_def by linarith

lemma sms_begin_denied:
  assumes "validate q = Inr p" and "map_of cooldown (p_phone p) = Some t0"
    and "t0 \<noteq> 0" and "t - t0 < 10000"
  shows "sms_begin cooldown q t =
    (Respond (json_error 429 (cooldown_message (ceil_div (10000 - (t - t0)) 1000))), cooldown)"
  using assms by (simp add: sms_begin_def)

lemma sms_begin_free:
  assumes "validate q = Inr p" and "map_of cooldown (p_phone p) = None"
  shows "sms_begin cooldown q t = (Await p, AList.update (p_phone p) t cooldown)"
  using assms by (simp add: sms_begin_def)

lemma sms_begin_Await:
  assumes "sms_begin cooldown q t = (Await p, cooldown')"
  shows "validate q = Inr p \<and> cooldown' = AList.update (p_phone p) t cooldown"
  using assms by (auto simp: sms_begin_def split: sum.splits option.splits if_splits)

text \<open>
  C1. A request that passes the checks and finds, for its destination, an entry \<open>t0\<close>
  less than 10000 ms old is answered 429 with the message built from
  \<open>ceil((10000 - (t - t0)) / 1000)\<close>; the handler stops there: the result is a response,
  not a pending provider call, and the cooldown map is returned as it was. The number of
  seconds is positive, and at most 10 when the check is not earlier than the entry.
  An entry is a reading of \<open>Date.now()\<close>, which is not 0.
\<close>

theorem cooldown_denied:
  assumes "validate q = Inr p" and "map_of cooldown (p_phone p) = Some t0"
    and "t0 \<noteq> 0" and "t - t0 < 10000"
  shows "sms_begin cooldown q t =
      (Respond (json_error 429
         (cooldown_message \<lceil>real_of_int (10000 - (t - t0)) / 1000\<rceil>)), cooldown)
    \<and> 0 < \<lceil>real_of_int (10000 - (t - t0)) / 1000\<rceil>
    \<and> (t0 \<le> t \<longrightarrow> \<lceil>real_of_int (10000 - (t - t0)) / 1000\<rceil> \<le> 10)"
proof -
  let ?a = "10000 - (t - t0)"
  have "0 < ceil_div ?a 1000"
    using assms(4) by (simp add: ceil_div_pos)
  moreover have "t0 \<le> t \<longrightarrow> ceil_div ?a 1000 \<le> 10"
    by (simp add: ceil_div_le)
  ultimately show ?thesis
    using sms_begin_denied [OF assms] by (simp add: ceil_div_ceiling)
qed

text \<open>A request 3.5 s after the reservation is told to wait 7 seconds.\<close>

theorem cooldown_denied_witness:
  "sms_begin [(js ''+639171234567'', 1000)]
      \<lparr>q_phone = Some (js ''09171234567''), q_sender = Some (js ''TEST''),
       q_text = Some (js ''Hello'')\<rparr> 4500
    = (Respond (json_error 429
         (js ''Please wait 7 seconds before sending another message to this number'')),
       [(js ''+639171234567'', 1000)])"
proof -
  let ?p = "\<lparr>p_phone = js ''+639171234567'', p_sender = js ''TEST'', p_text = js ''Hello''\<rparr>"
  have m: "map_of [(js ''+639171234567'', 1000::int)] (p_phone ?p) = Some 1000"
    by simp
  show ?thesis
    using cooldown_denied [OF validate_sample m, of 4500] cooldown_message_7 by simp
qed

subsection \<open>Rollback\<close>

text \<open>
  C2. Whatever the provider's error, the \<open>catch\<close> block leaves no entry for the
  destination, so a request for the same destination that passes the checks is let
  through at once, at any clock reading: it reserves and calls the provider.
\<close>

theorem rollback_allows_retry:
  assumes "sms_finish cooldown p (Rejected error) now2 = (out, cooldown')"
    and "validate q = Inr p'" and "p_phone p' = p_phone p"
  shows "map_of cooldown' (p_phone p) = None
    \<and> sms_begin cooldown' q now = (Await p', AList.update (p_phone p) now cooldown')"
proof -
  from assms(1) have "cooldown' = AList.delete (p_phone p) cooldown"
    by (auto simp: sms_finish_def Let_def split: option.splits)
  then have n: "map_of cooldown' (p_phone p) = None"
    by (simp add: delete_conv')
  with assms(2,3) show ?thesis
    using sms_begin_free [of q p' cooldown' now] by simp
qed

theorem rollback_allows_retry_witness:
  "sms_finish [(js ''+639171234567'', 1000)]
      \<lparr>p_phone = js ''+639171234567'', p_sender = js ''TEST'', p_text = js ''Hello''\<rparr>
      (Rejected \<lparr>err_code = Some 21610, err_message = Some (js ''blocked'')\<rparr>) 1500
     = (Responded (json_error 500 (js ''Phone number is blacklisted'')), [])
   \<and> sms_begin []
      \<lparr>q_phone = Some (js ''09171234567''), q_sender = Some (js ''TEST''),
       q_text = Some (js ''Hello'')\<rparr> 1501
     = (Await \<lparr>p_phone = js ''+639171234567'', p_sender = js ''TEST'', p_text = js ''Hello''\<rparr>,
        [(js ''+639171234567'', 1501)])"
proof -
  let ?p = "\<lparr>p_phone = js ''+639171234567'', p_sender = js ''TEST'', p_text = js ''Hello''\<rparr>"
  have f: "sms_finish [(js ''+639171234567'', 1000)] ?p
      (Rejected \<lparr>err_code = Some 21610, err_message = Some (js ''blocked'')\<rparr>) 1500
     = (Responded (json_error 500 (js ''Phone number is blacklisted'')), [])"
    by (simp add: sms_finish_def classify_def)
  show ?thesis
    using f rollback_allows_retry [OF f validate_sample, of 1501] by simp
qed

subsection \<open>The sweep\<close>

lemma sweep_fold_map_of:
  "map_of (fold (\<lambda>(phone, timestamp) m.
             if now - timestamp > 3600000 then AList.delete phone m else m) xs m0) k
   = (if list_ex (\<lambda>(phone, timestamp). phone = k \<and> now - timestamp > 3600000) xs then None
      else map_of m0 k)"
proof (induction xs arbitrary: m0)
  case Nil
  then show ?case by simp
next
  case (Cons x xs)
  obtain phone timestamp where x: "x = (phone, timestamp)"
    by (cases x)
  show ?case
    by (simp add: x Cons.IH delete_conv')
qed

lemma sweep_fold_distinct:
  "distinct (map fst m0) \<Longrightarrow>
   distinct (map fst (fold (\<lambda>(phone, timestamp) m.
             if now - timestamp > 3600000 then AList.delete phone m else m) xs m0))"
proof (induction xs arbitrary: m0)
  case Nil
  then show ?case by simp
next
  case (Cons x xs)
  obtain phone timestamp where x: "x = (phone, timestamp)"
    by (cases x)
  from Cons.prems show ?case
    by (simp add: x Cons.IH distinct_delete)
qed

text \<open>With one entry per key, some entry of \<open>k\<close> has \<open>P\<close> exactly when the one looked up has.\<close>

lemma expired_entry_iff:
  assumes "distinct (map fst cooldown)"
  shows "list_ex (\<lambda>(phone, timestamp). phone = k \<and> P timestamp) cooldown
    \<longleftrightarrow> (case map_of cooldown k of None \<Rightarrow> False | Some timestamp \<Rightarrow> P timestamp)"
proof (cases "map_of cooldown k")
  case None
  then have "k \<notin> fst ` set cooldown"
    by (simp add: map_of_eq_None_iff)
  then have "\<not> list_ex (\<lambda>(phone, timestamp). phone = k \<and> P timestamp) cooldown"
    by (force simp: list_ex_iff)
  with None show ?thesis by simp
next
  case (Some ts)
  have "\<And>v. (k, v) \<in> set cooldown \<longleftrightarrow> v = ts"
    using assms Some by (metis map_of_eq_Some_iff option.inject)
  then have "list_ex (\<lambda>(phone, timestamp). phone = k \<and> P timestamp) cooldown \<longleftrightarrow> P ts"
    by (auto simp: list_ex_iff)
  with Some show ?thesis by simp
qed

lemma sweep_map_of:
  assumes "distinct (map fst cooldown)"
  shows "map_of (sweep now cooldown) phone =
    (case map_of cooldown phone of
       None \<Rightarrow> None
     | Some timestamp \<Rightarrow> if now - timestamp > 3600000 then None else Some timestamp)"
  unfolding sweep_def sweep_fold_map_of expired_entry_iff [OF assms]
  by (simp split: option.splits)

lemma sweep_distinct:
  "distinct (map fst cooldown) \<Longrightarrow> distinct (map fst (sweep now cooldown))"
  unfolding sweep_def by (rule sweep_fold_distinct)

text \<open>
  C5. In a cooldown map (one entry per key), the sweep at \<open>now\<close> removes an entry exactly
  when \<open>now - timestamp\<close> is greater than 3600000: an entry no older than that keeps its
  time stamp, a key without an entry gets none, and the result is again a map with one
  entry per key.
\<close>

theorem sweep_deletes_exactly_expired:
  assumes "distinct (map fst cooldown)" and "map_of cooldown phone = Some timestamp"
  shows "(map_of (sweep now cooldown) phone = None \<longleftrightarrow> now - timestamp > 3600000)
    \<and> (now - timestamp \<le> 3600000 \<longrightarrow> map_of (sweep now cooldown) phone = Some timestamp)
    \<and> (\<forall>other. map_of cooldown other = None \<longrightarrow> map_of (sweep now cooldown) other = None)
    \<and> distinct (map fst (sweep now cooldown))"
  using assms by (simp add: sweep_map_of sweep_distinct)

text \<open>
  At 4000000 the entry of age 3999000 goes and the entry of age exactly 3600000 stays.
\<close>

theorem sweep_deletes_exactly_expired_witness:
  "map_of (sweep 4000000 [(js ''+639171234567'', 1000), (js ''+639181234567'', 400000)])
      (js ''+639171234567'') = None
   \<and> map_of (sweep 4000000 [(js ''+639171234567'', 1000), (js ''+639181234567'', 400000)])
      (js ''+639181234567'') = Some 400000"
proof -
  let ?cd = "[(js ''+639171234567'', 1000::int), (js ''+639181234567'', 400000)]"
  have d: "distinct (map fst ?cd)"
    by (simp add: js_def)
  have a: "map_of ?cd (js ''+639171234567'') = Some 1000"
    by simp
  have b: "map_of ?cd (js ''+639181234567'') = Some 400000"
    by (simp add: js_def)
  show ?thesis
    using sweep_deletes_exactly_expired [OF d a, of 4000000]
      sweep_deletes_exactly_expired [OF d b, of 4000000]
    by simp
qed

subsection \<open>Provider failures\<close>






subsection \<open>A reservation while the provider call is pending\<close>

text \<open>
  An event that is not later than 10 s after the reservation \<open>t\<close> of \<open>dest\<close> and is not a
  rollback of \<open>dest\<close> leaves the reservation in place.
\<close>

lemma inv_event:
  assumes d: "distinct (map fst cooldown)" and m: "map_of cooldown dest = Some t"
    and t: "t \<noteq> 0" and e: "event_time ev - t < 10000" and r: "\<not> rolls_back dest ev"
  shows "distinct (map fst (apply_event ev cooldown))
    \<and> map_of (apply_event ev cooldown) dest = Some t"
proof (cases ev)
  case (Begin q now)
  show ?thesis
  proof (cases "validate q")
    case (Inl resp)
    with Begin d m show ?thesis
      by (simp add: sms_begin_def)
  next
    case (Inr p)
    show ?thesis
    proof (cases "p_phone p = dest")
      case True
      with Begin Inr d m t e show ?thesis
        by (simp add: sms_begin_def)
    next
      case False
      with d m have "distinct (map fst (AList.update (p_phone p) now cooldown))
        \<and> map_of (AList.update (p_phone p) now cooldown) dest = Some t"
        by (simp add: distinct_update update_conv' del: map_of_eq_Some_iff)
      with Begin Inr d m show ?thesis
        by (simp add: sms_begin_def del: map_of_eq_Some_iff split: option.splits)
    qed
  qed
next
  case (Finish p result now2)
  show ?thesis
  proof (cases result)
    case (Resolved sid)
    with Finish d m show ?thesis
      by (simp add: sms_finish_def)
  next
    case (Rejected error)
    with Finish r have "p_phone p \<noteq> dest"
      by simp
    with d m have "distinct (map fst (AList.delete (p_phone p) cooldown))
      \<and> map_of (AList.delete (p_phone p) cooldown) dest = Some t"
      by (simp add: distinct_delete delete_conv' del: map_of_eq_Some_iff)
    with Finish Rejected show ?thesis
      by (simp add: sms_finish_def Let_def del: map_of_eq_Some_iff split: option.splits)
  qed
next
  case (Sweep now)
  with e have "\<not> now - t > 3600000"
    by simp
  with Sweep d m show ?thesis
    by (simp add: sweep_map_of sweep_distinct)
qed

lemma inv_run:
  assumes "distinct (map fst cooldown)" and "map_of cooldown dest = Some t" and "t \<noteq> 0"
    and "list_all (\<lambda>ev. event_time ev - t < 10000 \<and> \<not> rolls_back dest ev) evs"
  shows "distinct (map fst (run evs cooldown)) \<and> map_of (run evs cooldown) dest = Some t"
  using assms
proof (induction evs arbitrary: cooldown)
  case Nil
  then show ?case by (simp add: run_def)
next
  case (Cons ev evs)
  from Cons.prems have "distinct (map fst (apply_event ev cooldown))
    \<and> map_of (apply_event ev cooldown) dest = Some t"
    using inv_event [of cooldown dest t ev] by simp
  with Cons.prems Cons.IH [of "apply_event ev cooldown"] show ?case
    by (simp add: run_def)
qed

text \<open>
  C4, as the code has it. The entry is written in the same uninterrupted run that issues
  the provider call, so the call is never pending without it having been written. From
  then on, through any events up to the second request's time that are not the rollback
  of a failed request to the same destination, a second request for that destination
  within 10 s of the reservation is denied with 429 and changes nothing.
\<close>

theorem pending_reservation_blocks:
  assumes "distinct (map fst cooldown)"
    and "sms_begin cooldown qa t = (Await pa, cooldown1)" and "t \<noteq> 0"
    and "list_all (\<lambda>ev. event_time ev \<le> t' \<and> \<not> rolls_back (p_phone pa) ev) evs"
    and "validate qb = Inr pb" and "p_phone pb = p_phone pa" and "t' - t < 10000"
  shows "sms_begin (run evs cooldown1) qb t'
    = (Respond (json_error 429
         (cooldown_message \<lceil>real_of_int (10000 - (t' - t)) / 1000\<rceil>)),
       run evs cooldown1)"
proof -
  from assms(2) have c1: "cooldown1 = AList.update (p_phone pa) t cooldown"
    using sms_begin_Await by blast
  from assms(1) c1 have d1: "distinct (map fst cooldown1)"
    by (simp add: distinct_update)
  from c1 have m1: "map_of cooldown1 (p_phone pa) = Some t"
    by (simp add: update_conv')
  from assms(4,7)
  have "list_all (\<lambda>ev. event_time ev - t < 10000 \<and> \<not> rolls_back (p_phone pa) ev) evs"
    by (auto simp: list_all_iff)
  then have "map_of (run evs cooldown1) (p_phone pb) = Some t"
    using inv_run [OF d1 m1 assms(3)] assms(6) by simp
  then show ?thesis
    using sms_begin_denied [OF assms(5) _ assms(3) assms(7)] by (simp add: ceil_div_ceiling)
qed

text \<open>
  A reservation at 1000; then a sweep, a denied request for the same number and the
  rollback of a request to another number; the request at 4500 is denied.
\<close>

theorem pending_reservation_blocks_witness:
  "sms_begin
      (run [Sweep 2000,
            Begin \<lparr>q_phone = Some (js ''09171234567''), q_sender = Some (js ''TEST''),
                   q_text = Some (js ''Hello'')\<rparr> 3000,
            Finish \<lparr>p_phone = js ''+639181234567'', p_sender = js ''TEST'', p_text = js ''Hi''\<rparr>
              (Rejected \<lparr>err_code = Some 21211, err_message = None\<rparr>) 3500]
         [(js ''+639171234567'', 1000)])
      \<lparr>q_phone = Some (js ''09171234567''), q_sender = Some (js ''TEST''),
       q_text = Some (js ''Hello'')\<rparr> 4500
    = (Respond (json_error 429
         (js ''Please wait 7 seconds before sending another message to this number'')),
       [(js ''+639171234567'', 1000)])"
proof -
  let ?q = "\<lparr>q_phone = Some (js ''09171234567''), q_sender = Some (js ''TEST''),
       q_text = Some (js ''Hello'')\<rparr>"
  let ?p = "\<lparr>p_phone = js ''+639171234567'', p_sender = js ''TEST'', p_text = js ''Hello''\<rparr>"
  let ?p' = "\<lparr>p_phone = js ''+639181234567'', p_sender = js ''TEST'', p_text = js ''Hi''\<rparr>"
  let ?evs = "[Sweep 2000, Begin ?q 3000,
     Finish ?p' (Rejected \<lparr>err_code = Some 21211, err_message = None\<rparr>) 3500]"
  have b: "sms_begin [] ?q 1000 = (Await ?p, [(js ''+639171234567'', 1000)])"
    by (simp add: sms_begin_def validate_sample)
  have l: "list_all (\<lambda>ev. event_time ev \<le> 4500 \<and> \<not> rolls_back (p_phone ?p) ev) ?evs"
    by (simp add: js_def)
  have s1: "sweep 2000 [(js ''+639171234567'', 1000)] = [(js ''+639171234567'', 1000)]"
    by (simp add: sweep_def)
  have s2: "snd (sms_begin [(js ''+639171234567'', 1000)] ?q 3000)
    = [(js ''+639171234567'', 1000)]"
    by (simp add: sms_begin_def validate_sample)
  have s3: "snd (sms_finish [(js ''+639171234567'', 1000)] ?p'
      (Rejected \<lparr>err_code = Some 21211, err_message = None\<rparr>) 3500)
    = [(js ''+639171234567'', 1000)]"
    by (simp add: sms_finish_def classify_def js_def)
  have r: "run ?evs [(js ''+639171234567'', 1000)] = [(js ''+639171234567'', 1000)]"
    by (simp add: run_def s1 s2 s3)
  have "sms_begin (run ?evs [(js ''+639171234567'', 1000)]) ?q 4500
    = (Respond (json_error 429
         (cooldown_message \<lceil>real_of_int (10000 - (4500 - 1000)) / 1000\<rceil>)),
       run ?evs [(js ''+639171234567'', 1000)])"
    by (rule pending_reservation_blocks [OF _ b _ l validate_sample]) simp_all
  then show ?thesis
    using cooldown_message_7 r by simp
qed

text \<open>
  Where the unrestricted statement fails. A request reserved the number at 1000 and its
  provider call is slow. A second request at 12000, outside the window, is let through
  and reserves; its call is pending. At 12001 the first call fails and its \<open>catch\<close>
  block deletes the entry, which by now is the second request's. A third request at
  12002, 2 ms after the second was let through and with the second call still pending,
  is let through as well.
\<close>

theorem pending_reservation_counterexample:
  "sms_begin [(js ''+639171234567'', 1000)]
      \<lparr>q_phone = Some (js ''09171234567''), q_sender = Some (js ''TEST''),
       q_text = Some (js ''Hello'')\<rparr> 12000
     = (Await \<lparr>p_phone = js ''+639171234567'', p_sender = js ''TEST'', p_text = js ''Hello''\<rparr>,
        [(js ''+639171234567'', 12000)])
   \<and> run [Finish \<lparr>p_phone = js ''+639171234567'', p_sender = js ''TEST'', p_text = js ''Hello''\<rparr>
             (Rejected \<lparr>err_code = None, err_message = Some (js ''timeout'')\<rparr>) 12001]
        [(js ''+639171234567'', 12000)] = []
   \<and> sms_begin []
      \<lparr>q_phone = Some (js ''09171234567''), q_sender = Some (js ''TEST''),
       q_text = Some (js ''Hello'')\<rparr> 12002
     = (Await \<lparr>p_phone = js ''+639171234567'', p_sender = js ''TEST'', p_text = js ''Hello''\<rparr>,
        [(js ''+639171234567'', 12002)])
   \<and> (12002::int) - 12000 < 10000"
  by (simp add: sms_begin_def validate_sample run_def sms_finish_def classify_def)

subsection \<open>The generic server: validation\<close>

lemma phoneRegex_test_spec: "phoneRegex_test s = spec_e164_loose s"
proof -
  let ?ds = "if take 1 s = js ''+'' then drop 1 s else s"
  show ?thesis
  proof (cases ?ds)
    case Nil
    then show ?thesis
      by (simp add: phoneRegex_test_def spec_e164_loose_def)
  next
    case (Cons d ds)
    then show ?thesis
      by (auto simp: phoneRegex_test_def spec_e164_loose_def Let_def is_digit19_iff js_zero)
  qed
qed

lemma msg_invalid_neq_long:
  "js ''Message too long (max 160 characters)'' \<noteq> js ''Invalid phone number format''"
  by (simp add: js_def)

text \<open>
  C8, as the code has it. The generic server removes white space only. With the three
  parameters present, it answers 400 \<open>Invalid phone number format\<close> exactly when the
  phone, with white space removed, is not an optional \<open>+\<close> followed by 2 to 15 digits
  the first of which is not \<open>0\<close>. A hyphen is not removed and is not a digit, so a
  number written with hyphens is rejected.
\<close>

theorem generic_validation:
  assumes "q_phone q = Some phone" and "phone \<noteq> []"
    and "q_sender q = Some sender" and "sender \<noteq> []"
    and "q_text q = Some text" and "text \<noteq> []"
  shows "(spec_e164_loose (strip_whitespace phone) \<longrightarrow>
           server_sms q rnd now2 \<noteq> Respond (json_error 400 (js ''Invalid phone number format'')))
    \<and> (\<not> spec_e164_loose (strip_whitespace phone) \<longrightarrow>
           server_sms q rnd now2 = Respond (json_error 400 (js ''Invalid phone number format'')))"
  using assms msg_invalid_neq_long
  by (simp add: server_sms_def simulate_send_def phoneRegex_test_spec json_error_def)

theorem generic_validation_witness:
  "server_sms \<lparr>q_phone = Some (js ''+1 202 555 0123''), q_sender = Some (js ''TEST''),
       q_text = Some (js ''Hello'')\<rparr> (js ''k3j9x2a1b'') 1500
     \<noteq> Respond (json_error 400 (js ''Invalid phone number format''))
   \<and> server_sms \<lparr>q_phone = Some (js ''12345x''), q_sender = Some (js ''TEST''),
       q_text = Some (js ''Hello'')\<rparr> (js ''k3j9x2a1b'') 1500
     = Respond (json_error 400 (js ''Invalid phone number format''))"
proof -
  let ?q1 = "\<lparr>q_phone = Some (js ''+1 202 555 0123''), q_sender = Some (js ''TEST''),
       q_text = Some (js ''Hello'')\<rparr>"
  let ?q2 = "\<lparr>q_phone = Some (js ''12345x''), q_sender = Some (js ''TEST''),
       q_text = Some (js ''Hello'')\<rparr>"
  have a: "spec_e164_loose (strip_whitespace (js ''+1 202 555 0123''))"
    by (simp add: spec_e164_loose_def strip_whitespace_def is_space_def is_digit_def js_def)
  have b: "\<not> spec_e164_loose (strip_whitespace (js ''12345x''))"
    by (simp add: spec_e164_loose_def strip_whitespace_def is_space_def is_digit_def js_def)
  have n: "js ''+1 202 555 0123'' \<noteq> []" "js ''12345x'' \<noteq> []" "js ''TEST'' \<noteq> []"
    "js ''Hello'' \<noteq> []"
    by (simp_all add: js_def)
  show ?thesis
    using generic_validation [of ?q1 "js ''+1 202 555 0123''" "js ''TEST''" "js ''Hello''"
        "js ''k3j9x2a1b''" 1500]
      generic_validation [of ?q2 "js ''12345x''" "js ''TEST''" "js ''Hello''"
        "js ''k3j9x2a1b''" 1500]
      a b n
    by simp
qed

text \<open>
  \<open>+1-202-555-0123\<close> matches the pattern once white space and hyphens are stripped, and
  the generic server rejects it.
\<close>

theorem generic_validation_counterexample:
  "spec_e164_loose (strip_separators (js ''+1-202-555-0123''))
   \<and> server_sms \<lparr>q_phone = Some (js ''+1-202-555-0123''), q_sender = Some (js ''TEST''),
       q_text = Some (js ''Hello'')\<rparr> (js ''k3j9x2a1b'') 1500
     = Respond (json_error 400 (js ''Invalid phone number format''))"
  by (simp add: spec_e164_loose_def strip_separators_def server_sms_def phoneRegex_test_def
      strip_whitespace_def is_space_def is_digit_def is_digit19_def js_def)

subsection \<open>Success responses\<close>

lemma canonical_of_clean:
  assumes v: "isValidPhilippinePhone phone" and c: "strip_separators phone = phone"
  shows "replace_leading_09 phone = spec_canonical phone
    \<and> (\<exists>ds. length ds = 9 \<and> list_all is_digit ds \<and> replace_leading_09 phone = js ''+639'' @ ds)"
proof -
  from v c obtain ds where ds: "length ds = 9" "list_all is_digit ds"
    and s: "phone = js ''+639'' @ ds \<or> phone = js ''09'' @ ds"
    by (auto simp: isValidPhilippinePhone_iff)
  from s have "replace_leading_09 phone = js ''+639'' @ ds"
    by (auto simp: replace_leading_09_def js_09 js_639)
  with ds c show ?thesis
    by (auto simp: spec_canonical_def replace_leading_09_def Let_def)
qed

lemma validate_Inr_phone:
  assumes "validate q = Inr p" and "q_phone q = Some phone"
  shows "isValidPhilippinePhone phone \<and> p_phone p = replace_leading_09 phone
    \<and> q_sender q = Some (p_sender p)"
  using assms
  by (auto simp: validate_def normalizePhone_def split: option.splits if_splits)

text \<open>
  The generic server's \<open>catch\<close> block would copy the error's text into the response;
  no request reaches it.
\<close>

lemma server_catch_body:
  "body (server_catch msg) = [(''error'', JStr (js ''Failed to send SMS: '' @ msg))]"
  by (simp add: server_catch_def json_error_def)

lemma server_sms_Respond:
  "\<exists>r. server_sms q rnd now2 = Respond r \<and> status r \<noteq> 500"
  by (simp add: server_sms_def simulate_send_def json_error_def split: option.splits)

lemma server_sms_200:
  assumes "server_sms q rnd now2 = Respond r" and "status r = 200"
  shows "r = \<lparr>status = 200,
          body = [(''success'', JBool True),
                  (''message'', JStr (js ''SMS sent successfully'')),
                  (''messageId'', JStr (js ''msg_'' @ rnd)),
                  (''timestamp'', JIso now2)]\<rparr>"
  using assms
  by (auto simp: server_sms_def simulate_send_def json_error_def split: option.splits if_splits)

text \<open>
  C9, as the code has it. In the regional server, when the provider call of a request
  that passed the checks resolves, the response is 200 with exactly the fields
  \<open>success\<close>, \<open>message\<close>, \<open>messageId\<close> (the provider's \<open>sid\<close>), \<open>recipient\<close>,
  \<open>sender\<close> (the request's sender) and \<open>timestamp\<close>, and the cooldown map is kept.
  For a phone written without white space or hyphens the recipient is the normalized
  destination, \<open>+639\<close> and nine digits. In the generic server every 200 response has
  exactly the fields \<open>success\<close>, \<open>message\<close>, \<open>messageId\<close> and \<open>timestamp\<close>, the
  \<open>messageId\<close> being \<open>msg_\<close> and the random suffix.
\<close>

theorem success_response_fields:
  assumes "validate q = Inr p" and "q_phone q = Some phone"
    and "server_sms q' rnd now' = Respond r'" and "status r' = 200"
  shows "sms_finish cooldown p (Resolved sid) now2
      = (Responded \<lparr>status = 200,
           body = [(''success'', JBool True),
                   (''message'', JStr (js ''SMS sent successfully!'')),
                   (''messageId'', JStr sid),
                   (''recipient'', JStr (p_phone p)),
                   (''sender'', JStr (p_sender p)),
                   (''timestamp'', JIso now2)]\<rparr>, cooldown)
    \<and> q_sender q = Some (p_sender p)
    \<and> (strip_separators phone = phone \<longrightarrow>
          p_phone p = spec_canonical phone
          \<and> (\<exists>ds. length ds = 9 \<and> list_all is_digit ds \<and> p_phone p = js ''+639'' @ ds))
    \<and> field_names r' = [''success'', ''message'', ''messageId'', ''timestamp'']
    \<and> map_of (body r') ''messageId'' = Some (JStr (js ''msg_'' @ rnd))"
proof -
  have g: "field_names r' = [''success'', ''message'', ''messageId'', ''timestamp'']
    \<and> map_of (body r') ''messageId'' = Some (JStr (js ''msg_'' @ rnd))"
    using server_sms_200 [OF assms(3,4)] by (simp add: field_names_def)
  have v: "isValidPhilippinePhone phone" and pp: "p_phone p = replace_leading_09 phone"
    and sd: "q_sender q = Some (p_sender p)"
    using validate_Inr_phone [OF assms(1,2)] by simp_all
  have k: "strip_separators phone = phone \<longrightarrow>
          p_phone p = spec_canonical phone
          \<and> (\<exists>ds. length ds = 9 \<and> list_all is_digit ds \<and> p_phone p = js ''+639'' @ ds)"
  proof
    assume "strip_separators phone = phone"
    then show "p_phone p = spec_canonical phone
          \<and> (\<exists>ds. length ds = 9 \<and> list_all is_digit ds \<and> p_phone p = js ''+639'' @ ds)"
      unfolding pp by (rule canonical_of_clean [OF v])
  qed
  have f: "sms_finish cooldown p (Resolved sid) now2
      = (Responded \<lparr>status = 200,
           body = [(''success'', JBool True),
                   (''message'', JStr (js ''SMS sent successfully!'')),
                   (''messageId'', JStr sid),
                   (''recipient'', JStr (p_phone p)),
                   (''sender'', JStr (p_sender p)),
                   (''timestamp'', JIso now2)]\<rparr>, cooldown)"
    by (simp add: sms_finish_def)
  from f sd k g show ?thesis
    by blast
qed

theorem success_response_fields_witness:
  "sms_finish [(js ''+639171234567'', 1000)]
      \<lparr>p_phone = js ''+639171234567'', p_sender = js ''TEST'', p_text = js ''Hello''\<rparr>
      (Resolved (js ''SM0123'')) 1200
      = (Responded \<lparr>status = 200,
           body = [(''success'', JBool True),
                   (''message'', JStr (js ''SMS sent successfully!'')),
                   (''messageId'', JStr (js ''SM0123'')),
                   (''recipient'', JStr (js ''+639171234567'')),
                   (''sender'', JStr (js ''TEST'')),
                   (''timestamp'', JIso 1200)]\<rparr>, [(js ''+639171234567'', 1000)])
   \<and> strip_separators (js ''09171234567'') = js ''09171234567''
   \<and> spec_canonical (js ''09171234567'') = js ''+639171234567''
   \<and> field_names \<lparr>status = 200,
          body = [(''success'', JBool True),
                  (''message'', JStr (js ''SMS sent successfully'')),
                  (''messageId'', JStr (js ''msg_k3j9x2a1b'')),
                  (''timestamp'', JIso 1500)]\<rparr>
      = [''success'', ''message'', ''messageId'', ''timestamp'']"
proof -
  have c: "strip_separators (js ''09171234567'') = js ''09171234567''"
    by (simp add: strip_separators_def is_space_def js_def)
  have q: "q_phone \<lparr>q_phone = Some (js ''09171234567''), q_sender = Some (js ''TEST''),
       q_text = Some (js ''Hello'')\<rparr> = Some (js ''09171234567'')"
    by simp
  have sc: "spec_canonical (js ''09171234567'') = js ''+639171234567''"
    by (simp add: spec_canonical_def strip_separators_def is_space_def js_def)
  show ?thesis
    using success_response_fields [OF validate_sample q server_sample,
      of "[(js ''+639171234567'', 1000)]" "js ''SM0123''" 1200] c sc
    by (simp add: field_names_def)
qed

text \<open>The generic server's 200 response to a valid request has no recipient and no sender.\<close>

theorem success_response_fields_counterexample:
  "server_sms \<lparr>q_phone = Some (js ''+12025550123''), q_sender = Some (js ''TEST''),
       q_text = Some (js ''Hello'')\<rparr> (js ''k3j9x2a1b'') 1500
   = Respond \<lparr>status = 200,
          body = [(''success'', JBool True),
                  (''message'', JStr (js ''SMS sent successfully'')),
                  (''messageId'', JStr (js ''msg_k3j9x2a1b'')),
                  (''timestamp'', JIso 1500)]\<rparr>
   \<and> ''recipient'' \<notin> set (field_names \<lparr>status = 200,
          body = [(''success'', JBool True),
                  (''message'', JStr (js ''SMS sent successfully'')),
                  (''messageId'', JStr (js ''msg_k3j9x2a1b'')),
                  (''timestamp'', JIso 1500)]\<rparr>)
   \<and> ''sender'' \<notin> set (field_names \<lparr>status = 200,
          body = [(''success'', JBool True),
                  (''message'', JStr (js ''SMS sent successfully'')),
                  (''messageId'', JStr (js ''msg_k3j9x2a1b'')),
                  (''timestamp'', JIso 1500)]\<rparr>)"
  using server_sample by (simp add: field_names_def)

subsection \<open>The generic server: the simulated send\<close>

text \<open>
  C10. A request to the generic server that passes the missing-parameter, phone-format
  and message-length checks gets the 200 success response with \<open>messageId\<close> \<open>msg_\<close>
  followed by the random suffix, and no provider call is left pending. No request at all
  is answered with status 500, nor leaves a call pending: the handler's \<open>catch\<close> branch
  is never taken.
\<close>

theorem simulated_send_always_succeeds:
  assumes "q_phone q = Some phone" and "phone \<noteq> []"
    and "q_sender q = Some sender" and "sender \<noteq> []"
    and "q_text q = Some text" and "text \<noteq> []"
    and "phoneRegex_test (strip_whitespace phone)" and "length text \<le> 160"
  shows "server_sms q rnd now2
      = Respond \<lparr>status = 200,
          body = [(''success'', JBool True),
                  (''message'', JStr (js ''SMS sent successfully'')),
                  (''messageId'', JStr (js ''msg_'' @ rnd)),
                  (''timestamp'', JIso now2)]\<rparr>
    \<and> (\<forall>q' rnd' now'. \<exists>r. server_sms q' rnd' now' = Respond r \<and> status r \<noteq> 500)"
  using assms server_sms_Respond
  by (simp add: server_sms_def simulate_send_def)

theorem simulated_send_always_succeeds_witness:
  "server_sms \<lparr>q_phone = Some (js ''+1 202 555 0123''), q_sender = Some (js ''TEST''),
       q_text = Some (js ''Hello'')\<rparr> (js ''k3j9x2a1b'') 1500
   = Respond \<lparr>status = 200,
          body = [(''success'', JBool True),
                  (''message'', JStr (js ''SMS sent successfully'')),
                  (''messageId'', JStr (js ''msg_'' @ js ''k3j9x2a1b'')),
                  (''timestamp'', JIso 1500)]\<rparr>"
proof -
  let ?q = "\<lparr>q_phone = Some (js ''+1 202 555 0123''), q_sender = Some (js ''TEST''),
       q_text = Some (js ''Hello'')\<rparr>"
  have v: "phoneRegex_test (strip_whitespace (js ''+1 202 555 0123''))"
    by (simp add: phoneRegex_test_def strip_whitespace_def is_space_def is_digit_def
        is_digit19_def js_def)
  have n: "js ''+1 202 555 0123'' \<noteq> []" "js ''TEST'' \<noteq> []" "js ''Hello'' \<noteq> []"
    "length (js ''Hello'') \<le> 160"
    by (simp_all add: js_def)
  show ?thesis
    using simulated_send_always_succeeds [of ?q "js ''+1 202 555 0123''" "js ''TEST''"
        "js ''Hello''" "js ''k3j9x2a1b''" 1500] v n
    by simp
qed

end
